theory Spec2Isabelle
  imports Main
begin

section \<open>The API gateway of \<^verbatim>\<open>gateway/main.py\<close>\<close>

text \<open>
  The gateway authenticates callers with signed, time-limited bearer tokens and forwards
  requests to one of two backend services. This theory embeds \<^verbatim>\<open>create_access_token\<close>,
  \<^verbatim>\<open>verify_token\<close>, \<^verbatim>\<open>forward_request\<close>, \<^verbatim>\<open>login\<close> and the ten protected route
  handlers, and states the properties of the specification over them.

  Exceptions are values: a function that may raise returns a sum whose left injection is
  the exception. The network is a parameter \<open>client\<close>, a function from the request sent to
  the backend's reply; \<^verbatim>\<open>forward_request\<close> returns, beside its result, the list of the
  requests it sent, so that "no network call" is the empty list. The clock is a parameter
  \<open>now\<close>, in whole seconds since the epoch (the resolution of a token's \<^verbatim>\<open>exp\<close> claim).
  The JSON parser behind \<^verbatim>\<open>response.json()\<close>, the renderer behind \<^verbatim>\<open>JSONResponse\<close> and
  Python's \<^verbatim>\<open>str\<close> of an exception are parameters too.
\<close>

subsection \<open>JSON values, responses and exceptions\<close>

text \<open>
  A Python float as far as the gateway can tell floats apart: a finite one, with its
  mantissa and its binary exponent, or one of the three that are not finite. The parser
  reads \<^verbatim>\<open>NaN\<close>, \<^verbatim>\<open>Infinity\<close> and \<^verbatim>\<open>-Infinity\<close>, and a number too large for a float,
  such as \<^verbatim>\<open>1E400\<close>, as one of these.
\<close>

datatype pyfloat = Finite int int | NaN | Infinity | NegInfinity

text \<open>
  The values of details, payloads and bodies, as Python holds them: \<^verbatim>\<open>None\<close>, booleans,
  integers, floats, strings, lists and dicts.
\<close>

datatype json =
    JNull
  | JBool bool
  | JInt int
  | JFloat pyfloat
  | JStr string
  | JList "json list"
  | JDict "(string \<times> json) list"

text \<open>\<^verbatim>\<open>fastapi.HTTPException(status_code=..., detail=...)\<close>\<close>

datatype HTTPException = HTTPException (exc_status: int) (exc_detail: json)

text \<open>\<^verbatim>\<open>fastapi.responses.JSONResponse(content=..., status_code=...)\<close>\<close>

datatype JSONResponse = JSONResponse (resp_content: json) (resp_status: int)

text \<open>
  The exceptions that can travel through the \<^verbatim>\<open>try\<close> block of \<^verbatim>\<open>forward_request\<close>:
  the gateway's own \<^verbatim>\<open>HTTPException\<close>, \<^verbatim>\<open>httpx.TimeoutException\<close>, \<^verbatim>\<open>httpx.ConnectError\<close>,
  the decoding error of \<^verbatim>\<open>response.json()\<close>, the \<^verbatim>\<open>ValueError\<close> of a content that
  \<^verbatim>\<open>JSONResponse\<close> cannot render, and any other exception.
\<close>

datatype exn =
    HTTPError HTTPException
  | TimeoutException
  | ConnectError
  | JSONDecodeError string
  | ValueError string
  | OtherException string

text \<open>What an \<^verbatim>\<open>httpx\<close> call gives back: a response (status code and text) or a raise.\<close>

datatype reply = Response (reply_status: int) (reply_text: string) | Raises exn

text \<open>A request as the client sends it: method, URL and the \<^verbatim>\<open>json=\<close> keyword argument.\<close>

type_synonym request = "string \<times> string \<times> json option"

type_synonym outcome = "(HTTPException + JSONResponse) \<times> request list"

subsection \<open>Configuration\<close>

definition SECRET_KEY :: string where
  "SECRET_KEY = ''your-secret-key-keep-it-secret''"

definition ALGORITHM :: string where
  "ALGORITHM = ''HS256''"

definition ACCESS_TOKEN_EXPIRE_MINUTES :: int where
  "ACCESS_TOKEN_EXPIRE_MINUTES = 30"

text \<open>The dict \<^verbatim>\<open>SERVICES\<close>, as an association list: \<^verbatim>\<open>list(SERVICES.keys())\<close> is in insertion order.\<close>

definition SERVICES :: "(string \<times> string) list" where
  "SERVICES = [(''student'', ''http://localhost:8001''), (''course'', ''http://localhost:8002'')]"

subsection \<open>\<^verbatim>\<open>forward_request\<close>\<close>

text \<open>A string between apostrophes, as the f-strings of the messages write it.\<close>

definition quoted :: "string \<Rightarrow> string" where
  "quoted s = [CHR 0x27] @ s @ [CHR 0x27]"

text \<open>
  The body of the \<^verbatim>\<open>try\<close> block (lines 120 to 157). The 405 exception is raised inside it.
  \<open>loads\<close> is the JSON parser behind \<^verbatim>\<open>response.json()\<close>: the parsed value, or the message
  of its decoding error.

  \<^verbatim>\<open>JSONResponse(content=...)\<close> renders its content when it is built, inside the block:
  \<open>render\<close> is that renderer (\<^verbatim>\<open>json.dumps\<close> with \<^verbatim>\<open>allow_nan=False\<close>, then the encoding
  to UTF-8), giving the body or the message of the error it raises, as it does on a float
  that is not finite and on a string that cannot be encoded. It is applied to the parsed
  body; the two contents that the gateway builds itself, the dict of strings and a status
  code and \<^verbatim>\<open>None\<close>, always render.
\<close>

definition try_block ::
  "(request \<Rightarrow> reply) \<Rightarrow> (string \<Rightarrow> string + json) \<Rightarrow> (json \<Rightarrow> string + string)
     \<Rightarrow> string \<Rightarrow> string \<Rightarrow> string \<Rightarrow> json option \<Rightarrow> (exn + JSONResponse) \<times> request list" where
  "try_block client loads render service url method kwargs =
     (if method = ''GET'' \<or> method = ''POST'' \<or> method = ''PUT'' \<or> method = ''DELETE'' then
        (case client (method, url, kwargs) of
           Raises e \<Rightarrow> (Inl e, [(method, url, kwargs)])
         | Response st txt \<Rightarrow>
             (if st \<ge> 400 then
                Inr (JSONResponse
                  (JDict [(''error'', JStr ''Service Error''),
                          (''status_code'', JInt st),
                          (''service'', JStr service),
                          (''message'', JStr txt)])
                  st)
              else if txt \<noteq> [] then
                (case loads txt of
                   Inl msg \<Rightarrow> Inl (JSONDecodeError msg)
                 | Inr v \<Rightarrow>
                     (case render v of
                        Inl msg \<Rightarrow> Inl (ValueError msg)
                      | Inr body \<Rightarrow> Inr (JSONResponse v st)))
              else Inr (JSONResponse JNull st),
              [(method, url, kwargs)]))
      else
        (Inl (HTTPError (HTTPException 405
           (JDict [(''error'', JStr ''Method Not Allowed''),
                   (''message'', JStr (''HTTP method '' @ quoted method @ '' is not supported'')),
                   (''allowed_methods'',
                      JList [JStr ''GET'', JStr ''POST'', JStr ''PUT'', JStr ''DELETE''])]))),
         []))"

text \<open>
  The three \<^verbatim>\<open>except\<close> clauses (lines 159 to 189), in their order. \<open>str_exn\<close> is Python's
  \<^verbatim>\<open>str(e)\<close>.
\<close>

fun except_clauses :: "(exn \<Rightarrow> string) \<Rightarrow> string \<Rightarrow> string \<Rightarrow> exn \<Rightarrow> HTTPException" where
  "except_clauses str_exn service base TimeoutException =
     HTTPException 504
       (JDict [(''error'', JStr ''Gateway Timeout''),
               (''message'', JStr (''The service '' @ quoted service @ '' took too long to respond'')),
               (''service'', JStr service)])"
| "except_clauses str_exn service base ConnectError =
     HTTPException 503
       (JDict [(''error'', JStr ''Service Unavailable''),
               (''message'', JStr (''Unable to connect to '' @ quoted service
                   @ '' service. Please ensure the service is running.'')),
               (''service'', JStr service),
               (''service_url'', JStr base)])"
| "except_clauses str_exn service base e =
     HTTPException 500
       (JDict [(''error'', JStr ''Internal Server Error''),
               (''message'', JStr ''An unexpected error occurred while processing your request''),
               (''details'', JStr (str_exn e))])"

definition forward_request ::
  "(request \<Rightarrow> reply) \<Rightarrow> (string \<Rightarrow> string + json) \<Rightarrow> (json \<Rightarrow> string + string)
     \<Rightarrow> (exn \<Rightarrow> string) \<Rightarrow> string \<Rightarrow> string \<Rightarrow> string \<Rightarrow> json option \<Rightarrow> outcome" where
  "forward_request client loads render str_exn service path method kwargs =
     (case map_of SERVICES service of
        None \<Rightarrow>
          (Inl (HTTPException 404
             (JDict [(''error'', JStr ''Service Not Found''),
                     (''message'', JStr (''The requested service '' @ quoted service @ '' is not available'')),
                     (''available_services'', JList (map (JStr \<circ> fst) SERVICES))])),
           [])
      | Some base \<Rightarrow>
          (case try_block client loads render service (base @ path) method kwargs of
             (Inr response, sent) \<Rightarrow> (Inr response, sent)
           | (Inl e, sent) \<Rightarrow> (Inl (except_clauses str_exn service base e), sent)))"

subsection \<open>Tokens\<close>

text \<open>
  A token as the JWT library sees it: a string that does not parse as a compact JWT, or the
  three parts of one, namely the algorithm named in its header, its claims and its
  signature. \<open>mac\<close>, a parameter throughout, is the keyed hash of the library (HMAC with
  SHA-256 for HS256): it maps the key, the header and the claims to the signature.
\<close>

type_synonym claims = "string \<rightharpoonup> json"

datatype token = Malformed string | Compact string claims string

text \<open>
  The exceptions that \<^verbatim>\<open>jwt.decode\<close> raises: \<^verbatim>\<open>jwt.ExpiredSignatureError\<close> on a token
  that has expired, and the library's other errors on a token that does not parse, names
  another algorithm or has a signature that does not verify.
\<close>

datatype jwt_exn =
    ExpiredSignatureError
  | DecodeError
  | InvalidAlgorithmError
  | InvalidSignatureError

text \<open>
  Modelled from the spec: \<^verbatim>\<open>jwt.encode\<close> of the JWT library, which is not part of the
  repository. Section 4.1: \<^verbatim>\<open>issue\<close> "signs it with a symmetric secret using an HMAC-based
  scheme, returns the opaque token string".
\<close>

definition jwt_encode ::
  "(string \<Rightarrow> string \<Rightarrow> claims \<Rightarrow> string) \<Rightarrow> claims \<Rightarrow> string \<Rightarrow> string \<Rightarrow> token" where
  "jwt_encode mac payload key algorithm = Compact algorithm payload (mac key algorithm payload)"

text \<open>
  Modelled from the spec: \<^verbatim>\<open>jwt.decode\<close> of the JWT library, which is not part of the
  repository. Section 4.1: \<^verbatim>\<open>verify\<close> "decodes and checks signature; fails with
  ExpiredToken if expiry has passed; fails with InvalidToken if signature invalid,
  malformed"; section 3: "a token is valid iff its signature verifies under the gateway's
  secret AND its expiry has not passed". The token is parsed, then its signature is checked
  under the key, and only then is the \<^verbatim>\<open>exp\<close> claim of the authenticated payload read: the
  claims of a token whose signature does not verify are never looked at.
\<close>

definition jwt_decode ::
  "(string \<Rightarrow> string \<Rightarrow> claims \<Rightarrow> string) \<Rightarrow> int \<Rightarrow> token \<Rightarrow> string \<Rightarrow> string list
     \<Rightarrow> jwt_exn + claims" where
  "jwt_decode mac now tok key algorithms =
     (case tok of
        Malformed raw \<Rightarrow> Inl DecodeError
      | Compact a payload sg \<Rightarrow>
          (if a \<in> set algorithms then
             (if sg = mac key a payload then
                (case payload ''exp'' of
                   None \<Rightarrow> Inr payload
                 | Some (JInt e) \<Rightarrow> (if e \<le> now then Inl ExpiredSignatureError else Inr payload)
                 | Some _ \<Rightarrow> Inl DecodeError)
              else Inl InvalidSignatureError)
           else Inl InvalidAlgorithmError))"

text \<open>
  \<^verbatim>\<open>create_access_token\<close>: the copy of \<open>data\<close> gets the claim \<^verbatim>\<open>exp\<close>, thirty minutes
  after \<^verbatim>\<open>datetime.utcnow()\<close>, and is signed.
\<close>

definition create_access_token ::
  "(string \<Rightarrow> string \<Rightarrow> claims \<Rightarrow> string) \<Rightarrow> int \<Rightarrow> claims \<Rightarrow> token" where
  "create_access_token mac now data =
     (let to_encode = data;
          expire = now + ACCESS_TOKEN_EXPIRE_MINUTES * 60;
          to_encode = to_encode(''exp'' \<mapsto> JInt expire)
      in jwt_encode mac to_encode SECRET_KEY ALGORITHM)"

text \<open>\<^verbatim>\<open>HTTPAuthorizationCredentials\<close>: the scheme and the token of the Authorization header.\<close>

record HTTPAuthorizationCredentials =
  scheme :: string
  credentials :: token

text \<open>
  The exceptions that can travel through the \<^verbatim>\<open>try\<close> block of \<^verbatim>\<open>verify_token\<close>: those of
  the JWT library and the \<^verbatim>\<open>HTTPException\<close> raised when the subject is missing.
\<close>

datatype verify_exn = Jwt jwt_exn | Http HTTPException

text \<open>The \<^verbatim>\<open>try\<close> block of \<^verbatim>\<open>verify_token\<close> (lines 65 to 73). \<^verbatim>\<open>payload.get("sub")\<close> is
  \<^verbatim>\<open>None\<close> when the claim is absent and when it is JSON null.\<close>

definition verify_block ::
  "(string \<Rightarrow> string \<Rightarrow> claims \<Rightarrow> string) \<Rightarrow> int \<Rightarrow> HTTPAuthorizationCredentials
     \<Rightarrow> verify_exn + claims" where
  "verify_block mac now creds =
     (case jwt_decode mac now (credentials creds) SECRET_KEY [ALGORITHM] of
        Inl e \<Rightarrow> Inl (Jwt e)
      | Inr payload \<Rightarrow>
          (case payload ''sub'' of
             None \<Rightarrow> Inl (Http (HTTPException 401 (JStr ''Invalid authentication credentials'')))
           | Some JNull \<Rightarrow> Inl (Http (HTTPException 401 (JStr ''Invalid authentication credentials'')))
           | Some username \<Rightarrow> Inr payload))"

text \<open>
  What leaves a dependency or a handler when it raises: an \<^verbatim>\<open>HTTPException\<close>, which the
  framework answers with its status and detail, or an exception that nothing handles,
  here the \<^verbatim>\<open>AttributeError\<close> with its message, which the framework answers with the
  status 500.
\<close>

datatype raised = Raised HTTPException | AttributeError string

text \<open>
  \<^verbatim>\<open>verify_token\<close>: the block and its two \<^verbatim>\<open>except\<close> clauses (lines 74 to 83). Python
  tries the clauses in their order and evaluates the class that a clause names only when
  it reaches the clause. The first clause, \<^verbatim>\<open>except jwt.ExpiredSignatureError\<close>, handles
  the expired token. Every other exception of the block, the library's other errors and
  the \<^verbatim>\<open>HTTPException\<close> of the missing subject alike, reaches the second clause,
  \<^verbatim>\<open>except jwt.JWTError\<close>. The module that line 8 imports as \<^verbatim>\<open>jwt\<close>, with \<^verbatim>\<open>encode\<close>,
  \<^verbatim>\<open>decode\<close> and \<^verbatim>\<open>ExpiredSignatureError\<close>, is PyJWT, and PyJWT has no attribute
  \<^verbatim>\<open>JWTError\<close> (the name is that of another library): evaluating the clause raises
  \<^verbatim>\<open>AttributeError\<close>, which replaces the exception being handled. The 401 responses that
  lines 69 to 72 and 80 to 83 build are therefore never given.
\<close>

definition no_JWTError :: string where
  "no_JWTError = ''module '' @ quoted ''jwt'' @ '' has no attribute '' @ quoted ''JWTError''"

definition verify_token ::
  "(string \<Rightarrow> string \<Rightarrow> claims \<Rightarrow> string) \<Rightarrow> int \<Rightarrow> HTTPAuthorizationCredentials
     \<Rightarrow> raised + claims" where
  "verify_token mac now creds =
     (case verify_block mac now creds of
        Inr payload \<Rightarrow> Inr payload
      | Inl (Jwt ExpiredSignatureError) \<Rightarrow>
          Inl (Raised (HTTPException 401 (JStr ''Token has expired'')))
      | Inl e \<Rightarrow> Inl (AttributeError no_JWTError))"

subsection \<open>\<^verbatim>\<open>login\<close>\<close>

record LoginRequest =
  username :: string
  password :: string

record Token =
  access_token :: token
  token_type :: string

text \<open>An entry of \<^verbatim>\<open>fake_users_db\<close>: the dict with the keys username, password and role.\<close>

record user =
  user_username :: string
  user_password :: string
  user_role :: string

definition fake_users_db :: "string \<rightharpoonup> user" where
  "fake_users_db = map_of
     [(''admin'', \<lparr>user_username = ''admin'', user_password = ''admin123'', user_role = ''admin''\<rparr>),
      (''user'', \<lparr>user_username = ''user'', user_password = ''user123'', user_role = ''user''\<rparr>)]"

definition login ::
  "(string \<Rightarrow> string \<Rightarrow> claims \<Rightarrow> string) \<Rightarrow> int \<Rightarrow> LoginRequest \<Rightarrow> HTTPException + Token" where
  "login mac now login_data =
     (case fake_users_db (username login_data) of
        None \<Rightarrow>
          Inl (HTTPException 401
            (JDict [(''error'', JStr ''Authentication Failed''),
                    (''message'', JStr ''Incorrect username or password'')]))
      | Some user \<Rightarrow>
          (if user_password user \<noteq> password login_data then
             Inl (HTTPException 401
               (JDict [(''error'', JStr ''Authentication Failed''),
                       (''message'', JStr ''Incorrect username or password'')]))
           else
             Inr \<lparr>access_token = create_access_token mac now
                     [''sub'' \<mapsto> JStr (user_username user), ''role'' \<mapsto> JStr (user_role user)],
                  token_type = ''bearer''\<rparr>))"

subsection \<open>The protected routes\<close>

text \<open>
  Modelled from the spec: the bearer scheme \<^verbatim>\<open>security = HTTPBearer()\<close>, a class of the web
  framework, which is not part of the repository. Section 6: the routes are "all protected
  by bearer token in the Authorization header; unauthenticated \<rightarrow> 401 with structured
  body". The argument is the bearer credentials of the request, \<open>None\<close> when it has no
  Authorization header.
\<close>

definition security ::
  "HTTPAuthorizationCredentials option \<Rightarrow> HTTPException + HTTPAuthorizationCredentials" where
  "security authorization =
     (case authorization of
        None \<Rightarrow> Inl (HTTPException 401 (JStr ''Not authenticated''))
      | Some creds \<Rightarrow> Inr creds)"

text \<open>
  The parameter \<^verbatim>\<open>token_data: dict = Depends(verify_token)\<close> of every handler, with
  \<^verbatim>\<open>credentials = Depends(security)\<close> inside: the framework calls \<^verbatim>\<open>security\<close>, then
  \<^verbatim>\<open>verify_token\<close>, and calls the handler only with the value they return.
\<close>

type_synonym answer = "(raised + JSONResponse) \<times> request list"

definition Depends_verify_token ::
  "(string \<Rightarrow> string \<Rightarrow> claims \<Rightarrow> string) \<Rightarrow> int \<Rightarrow> HTTPAuthorizationCredentials option
     \<Rightarrow> (claims \<Rightarrow> outcome) \<Rightarrow> answer" where
  "Depends_verify_token mac now authorization handler =
     (case security authorization of
        Inl e \<Rightarrow> (Inl (Raised e), [])
      | Inr creds \<Rightarrow>
          (case verify_token mac now creds of
             Inl e \<Rightarrow> (Inl e, [])
           | Inr token_data \<Rightarrow>
               (case handler token_data of
                  (Inl e, sent) \<Rightarrow> (Inl (Raised e), sent)
                | (Inr response, sent) \<Rightarrow> (Inr response, sent))))"

text \<open>
  The status of the response that the client gets: that of the response returned, that
  of the \<^verbatim>\<open>HTTPException\<close> raised, and 500 for an exception that nothing handles.
\<close>

fun response_status :: "raised + JSONResponse \<Rightarrow> int" where
  "response_status (Inr response) = resp_status response"
| "response_status (Inl (Raised e)) = exc_status e"
| "response_status (Inl (AttributeError msg)) = 500"

text \<open>Python's \<^verbatim>\<open>str\<close> of an integer, as the f-strings of the paths write the identifiers.\<close>

fun str_nat :: "nat \<Rightarrow> string" where
  "str_nat n =
     (if n < 10 then [''0123456789'' ! n]
      else str_nat (n div 10) @ [''0123456789'' ! (n mod 10)])"

definition str_int :: "int \<Rightarrow> string" where
  "str_int i = (if i < 0 then ''-'' @ str_nat (nat (- i)) else str_nat (nat i))"

text \<open>
  The ten handlers. The first argument stands for \<^verbatim>\<open>forward_request\<close> with the network, the
  parser, the renderer and \<^verbatim>\<open>str\<close> fixed; \<open>token_data\<close> is only logged.
\<close>

type_synonym forwarder = "string \<Rightarrow> string \<Rightarrow> string \<Rightarrow> json option \<Rightarrow> outcome"

definition get_all_students :: "forwarder \<Rightarrow> claims \<Rightarrow> outcome" where
  "get_all_students fwd token_data = fwd ''student'' ''/api/students'' ''GET'' None"

definition get_student :: "forwarder \<Rightarrow> int \<Rightarrow> claims \<Rightarrow> outcome" where
  "get_student fwd student_id token_data =
     fwd ''student'' (''/api/students/'' @ str_int student_id) ''GET'' None"

definition create_student :: "forwarder \<Rightarrow> json \<Rightarrow> claims \<Rightarrow> outcome" where
  "create_student fwd student_data token_data =
     fwd ''student'' ''/api/students'' ''POST'' (Some student_data)"

definition update_student :: "forwarder \<Rightarrow> int \<Rightarrow> json \<Rightarrow> claims \<Rightarrow> outcome" where
  "update_student fwd student_id student_data token_data =
     fwd ''student'' (''/api/students/'' @ str_int student_id) ''PUT'' (Some student_data)"

definition delete_student :: "forwarder \<Rightarrow> int \<Rightarrow> claims \<Rightarrow> outcome" where
  "delete_student fwd student_id token_data =
     fwd ''student'' (''/api/students/'' @ str_int student_id) ''DELETE'' None"

definition get_all_courses :: "forwarder \<Rightarrow> claims \<Rightarrow> outcome" where
  "get_all_courses fwd token_data = fwd ''course'' ''/api/courses'' ''GET'' None"

definition get_course :: "forwarder \<Rightarrow> int \<Rightarrow> claims \<Rightarrow> outcome" where
  "get_course fwd course_id token_data =
     fwd ''course'' (''/api/courses/'' @ str_int course_id) ''GET'' None"

definition create_course :: "forwarder \<Rightarrow> json \<Rightarrow> claims \<Rightarrow> outcome" where
  "create_course fwd course_data token_data =
     fwd ''course'' ''/api/courses'' ''POST'' (Some course_data)"

definition update_course :: "forwarder \<Rightarrow> int \<Rightarrow> json \<Rightarrow> claims \<Rightarrow> outcome" where
  "update_course fwd course_id course_data token_data =
     fwd ''course'' (''/api/courses/'' @ str_int course_id) ''PUT'' (Some course_data)"

definition delete_course :: "forwarder \<Rightarrow> int \<Rightarrow> claims \<Rightarrow> outcome" where
  "delete_course fwd course_id token_data =
     fwd ''course'' (''/api/courses/'' @ str_int course_id) ''DELETE'' None"

text \<open>A request to one of the ten protected routes, with its path parameter and body.\<close>

datatype route =
    GET_students
  | GET_student int
  | POST_students json
  | PUT_student int json
  | DELETE_student int
  | GET_courses
  | GET_course int
  | POST_courses json
  | PUT_course int json
  | DELETE_course int

fun handler :: "forwarder \<Rightarrow> route \<Rightarrow> claims \<Rightarrow> outcome" where
  "handler fwd GET_students = get_all_students fwd"
| "handler fwd (GET_student i) = get_student fwd i"
| "handler fwd (POST_students b) = create_student fwd b"
| "handler fwd (PUT_student i b) = update_student fwd i b"
| "handler fwd (DELETE_student i) = delete_student fwd i"
| "handler fwd GET_courses = get_all_courses fwd"
| "handler fwd (GET_course i) = get_course fwd i"
| "handler fwd (POST_courses b) = create_course fwd b"
| "handler fwd (PUT_course i b) = update_course fwd i b"
| "handler fwd (DELETE_course i) = delete_course fwd i"

text \<open>The gateway on a request to a protected route: the dependency, then the handler.\<close>

definition gateway ::
  "(string \<Rightarrow> string \<Rightarrow> claims \<Rightarrow> string) \<Rightarrow> int \<Rightarrow> (request \<Rightarrow> reply) \<Rightarrow> (string \<Rightarrow> string + json)
     \<Rightarrow> (json \<Rightarrow> string + string) \<Rightarrow> (exn \<Rightarrow> string) \<Rightarrow> HTTPAuthorizationCredentials option
     \<Rightarrow> route \<Rightarrow> answer" where
  "gateway mac now client loads render str_exn authorization r =
     Depends_verify_token mac now authorization
       (handler (forward_request client loads render str_exn) r)"

subsection \<open>A sample environment\<close>

text \<open>
  One concrete network, parser, renderer, \<^verbatim>\<open>str\<close> and keyed hash, on which the properties
  below are evaluated. The course service knows no course 999, answers course 1 with a
  page that is not JSON, course 2 with an empty body, course 3 with the list \<^verbatim>\<open>[NaN]\<close> and
  course 4 with the number \<^verbatim>\<open>1E400\<close>; the student service is down for the list and too
  slow for student 1.
\<close>

definition sample_client :: "request \<Rightarrow> reply" where
  "sample_client r =
     (case r of (method, url, kwargs) \<Rightarrow>
        if url = ''http://localhost:8002/api/courses'' then Response 200 ''[]''
        else if url = ''http://localhost:8002/api/courses/999'' then Response 404 ''Course not found''
        else if url = ''http://localhost:8002/api/courses/1'' then Response 200 ''<html>''
        else if url = ''http://localhost:8002/api/courses/2'' then Response 204 ''''
        else if url = ''http://localhost:8002/api/courses/3'' then Response 200 ''[NaN]''
        else if url = ''http://localhost:8002/api/courses/4'' then Response 200 ''1E400''
        else if url = ''http://localhost:8001/api/students'' then Raises ConnectError
        else if url = ''http://localhost:8001/api/students/1'' then Raises TimeoutException
        else Raises (OtherException ''connection reset''))"

definition sample_loads :: "string \<Rightarrow> string + json" where
  "sample_loads s =
     (if s = ''[]'' then Inr (JList [])
      else if s = ''null'' then Inr JNull
      else if s = ''[NaN]'' then Inr (JList [JFloat NaN])
      else if s = ''1E400'' then Inr (JFloat Infinity)
      else Inl ''Expecting value'')"

text \<open>The renderer, on the values that this parser returns.\<close>

definition sample_render :: "json \<Rightarrow> string + string" where
  "sample_render v =
     (if v = JList [] then Inr ''[]''
      else if v = JNull then Inr ''null''
      else Inl ''Out of range float values are not JSON compliant'')"

fun sample_str :: "exn \<Rightarrow> string" where
  "sample_str (JSONDecodeError msg) = msg"
| "sample_str (ValueError msg) = msg"
| "sample_str (OtherException msg) = msg"
| "sample_str (HTTPError e) = ''HTTPException''"
| "sample_str TimeoutException = ''TimeoutException''"
| "sample_str ConnectError = ''ConnectError''"

definition sample_mac :: "string \<Rightarrow> string \<Rightarrow> claims \<Rightarrow> string" where
  "sample_mac key a payload =
     key @ a @ (case payload ''sub'' of Some (JStr u) \<Rightarrow> u | _ \<Rightarrow> '''')"

section \<open>Properties\<close>

subsection \<open>Preliminaries\<close>

lemma course_base: "map_of SERVICES ''course'' = Some ''http://localhost:8002''"
  by (simp add: SERVICES_def)

lemma student_base: "map_of SERVICES ''student'' = Some ''http://localhost:8001''"
  by (simp add: SERVICES_def)

lemma supported_methods:
  "''GET'' = ''GET'' \<or> ''GET'' = ''POST'' \<or> ''GET'' = ''PUT'' \<or> ''GET'' = ''DELETE''"
  "''PUT'' = ''GET'' \<or> ''PUT'' = ''POST'' \<or> ''PUT'' = ''PUT'' \<or> ''PUT'' = ''DELETE''"
  "''DELETE'' = ''GET'' \<or> ''DELETE'' = ''POST'' \<or> ''DELETE'' = ''PUT'' \<or> ''DELETE'' = ''DELETE''"
  by simp_all

text \<open>
  A method outside GET, POST, PUT and DELETE, on a registered service: the 405 exception
  is raised inside the \<^verbatim>\<open>try\<close> block, the clause \<^verbatim>\<open>except Exception\<close> catches it, and what
  leaves \<^verbatim>\<open>forward_request\<close> is the 500 exception, whose \<^verbatim>\<open>details\<close> is the text of the 405
  one. No request is sent.
\<close>

lemma unsupported_method_outcome:
  assumes "map_of SERVICES service = Some base"
    and "method \<noteq> ''GET''" "method \<noteq> ''POST''" "method \<noteq> ''PUT''" "method \<noteq> ''DELETE''"
  shows "forward_request client loads render str_exn service path method kwargs =
    (Inl (HTTPException 500
       (JDict [(''error'', JStr ''Internal Server Error''),
               (''message'', JStr ''An unexpected error occurred while processing your request''),
               (''details'', JStr (str_exn (HTTPError (HTTPException 405
                  (JDict [(''error'', JStr ''Method Not Allowed''),
                   (''message'', JStr (''HTTP method '' @ quoted method @ '' is not supported'')),
                   (''allowed_methods'',
                      JList [JStr ''GET'', JStr ''POST'', JStr ''PUT'', JStr ''DELETE''])])))))])),
     [])"
  using assms by (simp add: forward_request_def try_block_def)

text \<open>A supported method on a registered service sends exactly one request.\<close>

lemma supported_method_sends_once:
  assumes "map_of SERVICES service = Some base"
    and "method = ''GET'' \<or> method = ''POST'' \<or> method = ''PUT'' \<or> method = ''DELETE''"
  shows "snd (forward_request client loads render str_exn service path method kwargs)
           = [(method, base @ path, kwargs)]"
  using assms
  by (auto simp: forward_request_def try_block_def split: reply.splits sum.splits)

subsection \<open>The forwarder\<close>

text \<open>
  C1. The specification asks that an unsupported method, such as PATCH, gives the 405
  failure "Method Not Allowed" with the allowed methods, without reaching the network.
  On the student service with the method PATCH, \<^verbatim>\<open>forward_request\<close> sends nothing, but
  what it raises is the 500 failure "Internal Server Error": the 405 exception does not
  leave the \<^verbatim>\<open>try\<close> block.
\<close>

theorem forward_request_PATCH:
  "forward_request sample_client sample_loads sample_render sample_str ''student'' ''/api/students'' ''PATCH'' None =
    (Inl (HTTPException 500
       (JDict [(''error'', JStr ''Internal Server Error''),
               (''message'', JStr ''An unexpected error occurred while processing your request''),
               (''details'', JStr ''HTTPException'')])),
     [])"
  by (simp add: forward_request_def try_block_def SERVICES_def)

text \<open>
  C2. When the backend answers with a status of 400 or more, \<^verbatim>\<open>forward_request\<close> returns a
  response with that same status, whose content carries the backend's own text in its
  field \<^verbatim>\<open>message\<close> (under the error "Service Error", not a gateway-made "Not Found").
\<close>

theorem upstream_error_passthrough:
  assumes "map_of SERVICES service = Some base"
    and "method = ''GET'' \<or> method = ''POST'' \<or> method = ''PUT'' \<or> method = ''DELETE''"
    and "client (method, base @ path, kwargs) = Response st txt"
    and "st \<ge> 400"
  shows "forward_request client loads render str_exn service path method kwargs =
    (Inr (JSONResponse
       (JDict [(''error'', JStr ''Service Error''),
               (''status_code'', JInt st),
               (''service'', JStr service),
               (''message'', JStr txt)])
       st),
     [(method, base @ path, kwargs)])"
  using assms by (auto simp: forward_request_def try_block_def)

theorem upstream_error_passthrough_witness:
  "map_of SERVICES ''course'' = Some ''http://localhost:8002''
   \<and> sample_client (''GET'', ''http://localhost:8002'' @ ''/api/courses/999'', None)
       = Response 404 ''Course not found''
   \<and> forward_request sample_client sample_loads sample_render sample_str ''course'' ''/api/courses/999'' ''GET'' None =
    (Inr (JSONResponse
       (JDict [(''error'', JStr ''Service Error''),
               (''status_code'', JInt 404),
               (''service'', JStr ''course''),
               (''message'', JStr ''Course not found'')])
       404),
     [(''GET'', ''http://localhost:8002'' @ ''/api/courses/999'', None)])"
proof -
  have missing: "sample_client (''GET'', ''http://localhost:8002'' @ ''/api/courses/999'', None)
             = Response 404 ''Course not found''"
    by (simp add: sample_client_def)
  have err: "(400::int) \<le> 404" by simp
  from upstream_error_passthrough [where client = sample_client
      and loads = sample_loads and render = sample_render and str_exn = sample_str,
      OF course_base supported_methods(1) missing err]
    course_base missing
  show ?thesis by simp
qed

text \<open>
  C7. A service name that is not a key of \<^verbatim>\<open>SERVICES\<close> makes \<^verbatim>\<open>forward_request\<close> raise the
  404 failure "Service Not Found", whose \<^verbatim>\<open>available_services\<close> is exactly the list of the
  configured names, "student" and "course"; no request is sent.
\<close>

theorem unknown_service_404:
  assumes "service \<notin> set (map fst SERVICES)"
  shows "forward_request client loads render str_exn service path method kwargs =
           (Inl (HTTPException 404
              (JDict [(''error'', JStr ''Service Not Found''),
                      (''message'', JStr (''The requested service '' @ quoted service
                          @ '' is not available'')),
                      (''available_services'', JList [JStr ''student'', JStr ''course''])])),
            [])"
proof -
  from assms have "map_of SERVICES service = None"
    by (simp add: map_of_eq_None_iff)
  then show ?thesis
    by (simp add: forward_request_def SERVICES_def)
qed

theorem unknown_service_404_witness:
  "''billing'' \<notin> set (map fst SERVICES)
   \<and> forward_request sample_client sample_loads sample_render sample_str ''billing'' ''/api/bills'' ''GET'' None =
       (Inl (HTTPException 404
          (JDict [(''error'', JStr ''Service Not Found''),
                  (''message'', JStr (''The requested service '' @ quoted ''billing''
                      @ '' is not available'')),
                  (''available_services'', JList [JStr ''student'', JStr ''course''])])),
        [])"
proof -
  have unknown: "''billing'' \<notin> set (map fst SERVICES)"
    by (simp add: SERVICES_def)
  from unknown unknown_service_404 [OF unknown, of sample_client sample_loads sample_render sample_str
      "''/api/bills''" "''GET''" None]
  show ?thesis by simp
qed

text \<open>
  C8. On a registered service and a supported method: when the connection to the backend
  fails, \<^verbatim>\<open>forward_request\<close> raises the 503 failure "Service Unavailable" with the service
  name and its configured base URL; when the call times out, it raises the 504 failure
  "Gateway Timeout" with the service name.
\<close>

theorem backend_unreachable:
  assumes "map_of SERVICES service = Some base"
    and "method = ''GET'' \<or> method = ''POST'' \<or> method = ''PUT'' \<or> method = ''DELETE''"
  shows "(client (method, base @ path, kwargs) = Raises ConnectError \<longrightarrow>
            forward_request client loads render str_exn service path method kwargs =
              (Inl (HTTPException 503
                 (JDict [(''error'', JStr ''Service Unavailable''),
                         (''message'', JStr (''Unable to connect to '' @ quoted service
                             @ '' service. Please ensure the service is running.'')),
                         (''service'', JStr service),
                         (''service_url'', JStr base)])),
               [(method, base @ path, kwargs)]))
       \<and> (client (method, base @ path, kwargs) = Raises TimeoutException \<longrightarrow>
            forward_request client loads render str_exn service path method kwargs =
              (Inl (HTTPException 504
                 (JDict [(''error'', JStr ''Gateway Timeout''),
                         (''message'', JStr (''The service '' @ quoted service
                             @ '' took too long to respond'')),
                         (''service'', JStr service)])),
               [(method, base @ path, kwargs)]))"
  using assms by (auto simp: forward_request_def try_block_def)

theorem backend_unreachable_witness:
  "forward_request sample_client sample_loads sample_render sample_str ''student'' ''/api/students'' ''GET'' None =
     (Inl (HTTPException 503
        (JDict [(''error'', JStr ''Service Unavailable''),
                (''message'', JStr (''Unable to connect to '' @ quoted ''student''
                    @ '' service. Please ensure the service is running.'')),
                (''service'', JStr ''student''),
                (''service_url'', JStr ''http://localhost:8001'')])),
      [(''GET'', ''http://localhost:8001/api/students'', None)])
   \<and> forward_request sample_client sample_loads sample_render sample_str ''student'' ''/api/students/1'' ''DELETE'' None =
     (Inl (HTTPException 504
        (JDict [(''error'', JStr ''Gateway Timeout''),
                (''message'', JStr (''The service '' @ quoted ''student''
                    @ '' took too long to respond'')),
                (''service'', JStr ''student'')])),
      [(''DELETE'', ''http://localhost:8001/api/students/1'', None)])"
proof -
  have down: "sample_client (''GET'', ''http://localhost:8001'' @ ''/api/students'', None)
                = Raises ConnectError"
    by (simp add: sample_client_def)
  have slow: "sample_client (''DELETE'', ''http://localhost:8001'' @ ''/api/students/1'', None)
                = Raises TimeoutException"
    by (simp add: sample_client_def)
  from backend_unreachable [where client = sample_client
      and path = "''/api/students''" and kwargs = None
      and loads = sample_loads and render = sample_render and str_exn = sample_str,
      OF student_base supported_methods(1)] down
  have one: "forward_request sample_client sample_loads sample_render sample_str ''student'' ''/api/students''
      ''GET'' None =
     (Inl (HTTPException 503
        (JDict [(''error'', JStr ''Service Unavailable''),
                (''message'', JStr (''Unable to connect to '' @ quoted ''student''
                    @ '' service. Please ensure the service is running.'')),
                (''service'', JStr ''student''),
                (''service_url'', JStr ''http://localhost:8001'')])),
      [(''GET'', ''http://localhost:8001/api/students'', None)])"
    by simp
  from backend_unreachable [where client = sample_client
      and path = "''/api/students/1''" and kwargs = None
      and loads = sample_loads and render = sample_render and str_exn = sample_str,
      OF student_base supported_methods(3)] slow
  have two: "forward_request sample_client sample_loads sample_render sample_str ''student'' ''/api/students/1''
      ''DELETE'' None =
     (Inl (HTTPException 504
        (JDict [(''error'', JStr ''Gateway Timeout''),
                (''message'', JStr (''The service '' @ quoted ''student''
                    @ '' took too long to respond'')),
                (''service'', JStr ''student'')])),
      [(''DELETE'', ''http://localhost:8001/api/students/1'', None)])"
    by simp
  from one two show ?thesis by simp
qed




text \<open>
  C10. When the backend answers with a status under 400 and a body that is not empty and
  does not parse as JSON, \<^verbatim>\<open>forward_request\<close> does not return the body: it raises the 500
  failure "Internal Server Error".
\<close>

theorem invalid_json_is_500:
  assumes "map_of SERVICES service = Some base"
    and "method = ''GET'' \<or> method = ''POST'' \<or> method = ''PUT'' \<or> method = ''DELETE''"
    and "client (method, base @ path, kwargs) = Response st txt"
    and "st < 400"
    and "txt \<noteq> []"
    and "loads txt = Inl msg"
  shows "forward_request client loads render str_exn service path method kwargs =
    (Inl (HTTPException 500
       (JDict [(''error'', JStr ''Internal Server Error''),
               (''message'', JStr ''An unexpected error occurred while processing your request''),
               (''details'', JStr (str_exn (JSONDecodeError msg)))])),
     [(method, base @ path, kwargs)])"
  using assms by (auto simp: forward_request_def try_block_def)

theorem invalid_json_is_500_witness:
  "forward_request sample_client sample_loads sample_render sample_str ''course'' ''/api/courses/1'' ''PUT''
     (Some (JDict [(''credits'', JInt 4)])) =
    (Inl (HTTPException 500
       (JDict [(''error'', JStr ''Internal Server Error''),
               (''message'', JStr ''An unexpected error occurred while processing your request''),
               (''details'', JStr ''Expecting value'')])),
     [(''PUT'', ''http://localhost:8002/api/courses/1'', Some (JDict [(''credits'', JInt 4)]))])"
proof -
  have page: "sample_client (''PUT'', ''http://localhost:8002'' @ ''/api/courses/1'',
                  Some (JDict [(''credits'', JInt 4)]))
                = Response 200 ''<html>''"
    by (simp add: sample_client_def)
  have bad: "sample_loads ''<html>'' = Inl ''Expecting value''"
    by (simp add: sample_loads_def)
  from invalid_json_is_500 [where client = sample_client
      and loads = sample_loads and render = sample_render and str_exn = sample_str,
      OF course_base supported_methods(2) page _ _ bad]
  show ?thesis by simp
qed

subsection \<open>Tokens and login\<close>

text \<open>
  What \<^verbatim>\<open>verify_token\<close> does on the tokens it does not accept, whatever the keyed hash and
  the time: a malformed token, a token whose signature does not verify, and a token that
  is signed, not expired and without a subject all end in the \<^verbatim>\<open>AttributeError\<close> of the
  second \<^verbatim>\<open>except\<close> clause; none of them gets a 401.
\<close>

lemma rejected_token_outcome:
  "verify_token mac now \<lparr>scheme = s, credentials = Malformed raw\<rparr>
     = Inl (AttributeError no_JWTError)"
  "sg \<noteq> mac SECRET_KEY a payload \<Longrightarrow>
     verify_token mac now \<lparr>scheme = s, credentials = Compact a payload sg\<rparr>
       = Inl (AttributeError no_JWTError)"
  "sg = mac SECRET_KEY ALGORITHM payload \<Longrightarrow>
   payload ''exp'' = None \<or> (\<exists>e. payload ''exp'' = Some (JInt e) \<and> now < e) \<Longrightarrow>
   payload ''sub'' = None \<or> payload ''sub'' = Some JNull \<Longrightarrow>
     verify_token mac now \<lparr>scheme = s, credentials = Compact ALGORITHM payload sg\<rparr>
       = Inl (AttributeError no_JWTError)"
  by (auto simp: verify_token_def verify_block_def jwt_decode_def)

text \<open>
  When the dependency fails, the handler is not run: the answer is the failure and no
  request is sent, on every route and whatever the network.
\<close>

lemma auth_failure_sends_nothing:
  "security authorization = Inl e \<Longrightarrow>
     gateway mac now client loads render str_exn authorization r = (Inl (Raised e), [])"
  "security authorization = Inr creds \<Longrightarrow> verify_token mac now creds = Inl x \<Longrightarrow>
     gateway mac now client loads render str_exn authorization r = (Inl x, [])"
  by (simp_all add: gateway_def Depends_verify_token_def)

text \<open>
  C3, as stated, regardless of the signature: it fails on a token that is expired and
  tampered with. At time 2000, a token whose claims expired at 1000 and whose signature is
  forged does not fail with "Token has expired": the library rejects the signature before
  it reads the expiry, and \<^verbatim>\<open>verify_token\<close> ends in the \<^verbatim>\<open>AttributeError\<close>.
\<close>

theorem tampered_expired_token_not_expired_outcome:
  "verify_token sample_mac 2000
     \<lparr>scheme = ''Bearer'',
      credentials = Compact ''HS256''
        [''sub'' \<mapsto> JStr ''admin'', ''role'' \<mapsto> JStr ''admin'', ''exp'' \<mapsto> JInt 1000] ''forged''\<rparr>
   = Inl (AttributeError no_JWTError)"
  by (simp add: verify_token_def verify_block_def jwt_decode_def sample_mac_def
      SECRET_KEY_def ALGORITHM_def)

text \<open>
  C3, amended. For every token signed under the gateway's secret whose expiry is in the
  past, \<^verbatim>\<open>verify_token\<close> fails with the status 401 and the detail "Token has expired".
\<close>

theorem expired_token_rejected:
  assumes "sg = mac SECRET_KEY ALGORITHM payload"
    and "payload ''exp'' = Some (JInt e)"
    and "e < now"
  shows "verify_token mac now \<lparr>scheme = s, credentials = Compact ALGORITHM payload sg\<rparr>
           = Inl (Raised (HTTPException 401 (JStr ''Token has expired'')))"
  using assms by (simp add: verify_token_def verify_block_def jwt_decode_def)

theorem expired_token_rejected_witness:
  "verify_token sample_mac 2000
     \<lparr>scheme = ''Bearer'',
      credentials = Compact ALGORITHM
        [''sub'' \<mapsto> JStr ''admin'', ''role'' \<mapsto> JStr ''admin'', ''exp'' \<mapsto> JInt 1000]
        (sample_mac SECRET_KEY ALGORITHM
           [''sub'' \<mapsto> JStr ''admin'', ''role'' \<mapsto> JStr ''admin'', ''exp'' \<mapsto> JInt 1000])\<rparr>
   = Inl (Raised (HTTPException 401 (JStr ''Token has expired'')))"
proof -
  have past: "(1000::int) < 2000" by simp
  have exp: "[''sub'' \<mapsto> JStr ''admin'', ''role'' \<mapsto> JStr ''admin'', ''exp'' \<mapsto> JInt 1000] ''exp''
               = Some (JInt 1000)"
    by simp
  from expired_token_rejected [where mac = sample_mac and now = 2000 and e = 1000
      and s = "''Bearer''"
      and payload = "[''sub'' \<mapsto> JStr ''admin'', ''role'' \<mapsto> JStr ''admin'', ''exp'' \<mapsto> JInt 1000]",
      OF refl exp past]
  show ?thesis .
qed

text \<open>
  C4. For every name and password that match an entry of \<^verbatim>\<open>fake_users_db\<close>, \<^verbatim>\<open>login\<close>
  returns a bearer token, and \<^verbatim>\<open>verify_token\<close>, at any time before thirty minutes have
  passed since the login, accepts that token and returns a payload whose \<^verbatim>\<open>sub\<close> and
  \<^verbatim>\<open>role\<close> are the username and the role of the entry.
\<close>

theorem login_verify_roundtrip:
  assumes "fake_users_db uname = Some u"
    and "user_password u = pw"
    and "t < now + 30 * 60"
  shows "\<exists>tok payload.
           login mac now \<lparr>username = uname, password = pw\<rparr>
             = Inr \<lparr>access_token = tok, token_type = ''bearer''\<rparr>
         \<and> verify_token mac t \<lparr>scheme = s, credentials = tok\<rparr> = Inr payload
         \<and> payload ''sub'' = Some (JStr (user_username u))
         \<and> payload ''role'' = Some (JStr (user_role u))"
  using assms
  by (simp add: login_def create_access_token_def jwt_encode_def verify_token_def
      verify_block_def jwt_decode_def ACCESS_TOKEN_EXPIRE_MINUTES_def Let_def)

theorem login_verify_roundtrip_witness:
  "\<exists>tok payload.
     login sample_mac 1000 \<lparr>username = ''admin'', password = ''admin123''\<rparr>
       = Inr \<lparr>access_token = tok, token_type = ''bearer''\<rparr>
   \<and> verify_token sample_mac 2799 \<lparr>scheme = ''Bearer'', credentials = tok\<rparr> = Inr payload
   \<and> payload ''sub'' = Some (JStr ''admin'')
   \<and> payload ''role'' = Some (JStr ''admin'')"
proof -
  have stored: "fake_users_db ''admin''
      = Some \<lparr>user_username = ''admin'', user_password = ''admin123'', user_role = ''admin''\<rparr>"
    by (simp add: fake_users_db_def)
  have early: "(2799::int) < 1000 + 30 * 60" by simp
  from login_verify_roundtrip [where mac = sample_mac and s = "''Bearer''" and t = 2799
      and now = 1000 and pw = "''admin123''", OF stored _ early]
  show ?thesis by simp
qed

text \<open>
  C5. The specification asks that a malformed token fails with the 401 failure of an
  invalid token. On the credentials \<^verbatim>\<open>abc\<close>, \<^verbatim>\<open>verify_token\<close> returns no payload, but
  what it raises is not the 401 "Could not validate credentials" that lines 80 to 83
  build: it is the \<^verbatim>\<open>AttributeError\<close> of the clause \<^verbatim>\<open>except jwt.JWTError\<close>.
\<close>

theorem verify_token_malformed:
  "verify_token sample_mac 2000 \<lparr>scheme = ''Bearer'', credentials = Malformed ''abc''\<rparr>
     = Inl (AttributeError no_JWTError)"
  by (simp add: verify_token_def verify_block_def jwt_decode_def)

subsection \<open>The protected routes\<close>

text \<open>
  C6. The specification asks that a request whose token is not verified is answered 401,
  without a call of \<^verbatim>\<open>forward_request\<close>. On \<^verbatim>\<open>GET /gateway/courses\<close> with the header
  \<^verbatim>\<open>Authorization: Bearer abc\<close>, no request is sent to the course service, but the
  answer is the unhandled \<^verbatim>\<open>AttributeError\<close>, that is the status 500.
\<close>

theorem gateway_malformed_token:
  "gateway sample_mac 2000 sample_client sample_loads sample_render sample_str
       (Some \<lparr>scheme = ''Bearer'', credentials = Malformed ''abc''\<rparr>) GET_courses
     = (Inl (AttributeError no_JWTError), [])
   \<and> response_status (fst (gateway sample_mac 2000 sample_client sample_loads sample_render
         sample_str (Some \<lparr>scheme = ''Bearer'', credentials = Malformed ''abc''\<rparr>) GET_courses))
     = 500"
  by (simp add: gateway_def Depends_verify_token_def security_def verify_token_def
      verify_block_def jwt_decode_def)

text \<open>
  The scenario of the specification: the administrator logs in at time 1000 and, at time
  1500, asks for the list of courses with the token; the gateway sends one GET to the
  course service and returns its status and its JSON array.
\<close>

lemma authorised_request_forwarded:
  "gateway sample_mac 1500 sample_client sample_loads sample_render sample_str
     (Some \<lparr>scheme = ''Bearer'',
            credentials = create_access_token sample_mac 1000
              [''sub'' \<mapsto> JStr ''admin'', ''role'' \<mapsto> JStr ''admin'']\<rparr>)
     GET_courses
   = (Inr (JSONResponse (JList []) 200), [(''GET'', ''http://localhost:8002/api/courses'', None)])"
  by (simp add: gateway_def Depends_verify_token_def security_def
      create_access_token_def jwt_encode_def verify_token_def verify_block_def jwt_decode_def
      Let_def ACCESS_TOKEN_EXPIRE_MINUTES_def get_all_courses_def forward_request_def
      try_block_def SERVICES_def sample_client_def sample_loads_def sample_render_def)

text \<open>With the same token, course 999 gives the backend's 404 and its text.\<close>

lemma authorised_request_upstream_404:
  "gateway sample_mac 1500 sample_client sample_loads sample_render sample_str
     (Some \<lparr>scheme = ''Bearer'',
            credentials = create_access_token sample_mac 1000
              [''sub'' \<mapsto> JStr ''admin'', ''role'' \<mapsto> JStr ''admin'']\<rparr>)
     (GET_course 999)
   = (Inr (JSONResponse
        (JDict [(''error'', JStr ''Service Error''),
                (''status_code'', JInt 404),
                (''service'', JStr ''course''),
                (''message'', JStr ''Course not found'')])
        404),
      [(''GET'', ''http://localhost:8002/api/courses/999'', None)])"
  by (simp add: gateway_def Depends_verify_token_def security_def
      create_access_token_def jwt_encode_def verify_token_def verify_block_def jwt_decode_def
      Let_def ACCESS_TOKEN_EXPIRE_MINUTES_def get_course_def str_int_def forward_request_def
      try_block_def SERVICES_def sample_client_def sample_loads_def)

end
